theory Spec2Isabelle
  imports Main
begin

section \<open>Python values of the gateway\<close>

text \<open>
  The gateway (\<^verbatim>\<open>src/main.py\<close>) handles values that came out of a JSON parser:
  the request's messages (\<^verbatim>\<open>List[Dict[str, Any]]\<close>) and the backend's reply
  (\<^verbatim>\<open>response.json()\<close>). A dict is kept as an association list in insertion order,
  looked up with \<^const>\<open>map_of\<close>. A float is kept by its \<^verbatim>\<open>repr\<close> text: the program
  only tests floats for truth and prints them. Strings are \<^typ>\<open>string\<close>, one
  \<^typ>\<open>char\<close> for each code point below 256.
\<close>

datatype json =
    JNull
  | JBool bool
  | JInt int
  | JFloat string
  | JStr string
  | JArr "json list"
  | JObj "(string \<times> json) list"

type_synonym dict = "(string \<times> json) list"

text \<open>Exceptions as values. \<open>HTTPException status_code detail headers\<close> is FastAPI's.\<close>

datatype exn =
    HTTPException int string "(string \<times> string) list"
  | KeyError string
  | TypeError
  | AttributeError
  | JSONDecodeError

section \<open>Printing values\<close>

text \<open>
  The builtins the handler calls on its values: \<^verbatim>\<open>str\<close> of an int (the index in
  \<^verbatim>\<open>f"\n{i}. {option_text}"\<close>), \<^verbatim>\<open>str\<close> and \<^verbatim>\<open>repr\<close> of a parsed payload
  (\<^verbatim>\<open>str(response_data)\<close>), and \<^verbatim>\<open>json.dumps\<close> with its defaults
  (\<^verbatim>\<open>ensure_ascii=True\<close>, separators \<^verbatim>\<open>", "\<close> and \<^verbatim>\<open>": "\<close>).
\<close>

definition digit :: "nat \<Rightarrow> char" where
  "digit d = ''0123456789abcdef'' ! (d mod 16)"

function str_nat :: "nat \<Rightarrow> string" where
  "str_nat n = (if n < 10 then [digit n] else str_nat (n div 10) @ [digit (n mod 10)])"
  by pat_completeness auto
termination
  by (relation "measure id") auto

declare str_nat.simps [simp del]

definition str_int :: "int \<Rightarrow> string" where
  "str_int i = (if i < 0 then CHR ''-'' # str_nat (nat (- i)) else str_nat (nat i))"

definition hex2 :: "nat \<Rightarrow> string" where
  "hex2 n = [digit (n div 16), digit n]"

fun join :: "string \<Rightarrow> string list \<Rightarrow> string" where
  "join sep [] = []"
| "join sep [x] = x"
| "join sep (x # y # ys) = x @ sep @ join sep (y # ys)"

text \<open>
  \<^verbatim>\<open>repr\<close> of a string: double quotes only when the string has a single quote and no
  double quote; the quote and the backslash are escaped, tab, newline and carriage return
  are written \<^verbatim>\<open>\t\<close>, \<^verbatim>\<open>\n\<close>, \<^verbatim>\<open>\r\<close>, and every other code point that is not
  printable is written \<^verbatim>\<open>\xhh\<close>.
\<close>

definition isprintable :: "char \<Rightarrow> bool" where
  "isprintable c = (let n = (of_char c :: nat) in (32 \<le> n \<and> n < 127) \<or> (161 \<le> n \<and> n \<noteq> 173))"

definition repr_quote :: "string \<Rightarrow> char" where
  "repr_quote s = (if CHR 0x27 \<in> set s \<and> CHR 0x22 \<notin> set s then CHR 0x22 else CHR 0x27)"

definition repr_char :: "char \<Rightarrow> char \<Rightarrow> string" where
  "repr_char q c =
     (if c = q \<or> c = CHR 0x5C then [CHR 0x5C, c]
      else if c = CHR 0x09 then [CHR 0x5C, CHR ''t'']
      else if c = CHR 0x0A then [CHR 0x5C, CHR ''n'']
      else if c = CHR 0x0D then [CHR 0x5C, CHR ''r'']
      else if \<not> isprintable c then [CHR 0x5C, CHR ''x''] @ hex2 (of_char c)
      else [c])"

definition repr_str :: "string \<Rightarrow> string" where
  "repr_str s = (let q = repr_quote s in q # concat (map (repr_char q) s) @ [q])"

fun py_repr :: "json \<Rightarrow> string" where
  "py_repr JNull = ''None''"
| "py_repr (JBool b) = (if b then ''True'' else ''False'')"
| "py_repr (JInt i) = str_int i"
| "py_repr (JFloat r) = r"
| "py_repr (JStr s) = repr_str s"
| "py_repr (JArr xs) = ''['' @ join '', '' (map py_repr xs) @ '']''"
| "py_repr (JObj kvs) =
     ''{'' @ join '', '' (map (\<lambda>(k, v). repr_str k @ '': '' @ py_repr v) kvs) @ ''}''"

text \<open>\<^verbatim>\<open>str(v)\<close>, also what an f-string field \<^verbatim>\<open>{v}\<close> prints: a string is itself.\<close>

definition py_str :: "json \<Rightarrow> string" where
  "py_str v = (case v of JStr s \<Rightarrow> s | _ \<Rightarrow> py_repr v)"

definition dumps_char :: "char \<Rightarrow> string" where
  "dumps_char c =
     (if c = CHR 0x22 then [CHR 0x5C, CHR 0x22]
      else if c = CHR 0x5C then [CHR 0x5C, CHR 0x5C]
      else if c = CHR 0x0A then [CHR 0x5C, CHR ''n'']
      else if c = CHR 0x0D then [CHR 0x5C, CHR ''r'']
      else if c = CHR 0x09 then [CHR 0x5C, CHR ''t'']
      else if c = CHR 0x08 then [CHR 0x5C, CHR ''b'']
      else if c = CHR 0x0C then [CHR 0x5C, CHR ''f'']
      else if 32 \<le> (of_char c :: nat) \<and> (of_char c :: nat) \<le> 126 then [c]
      else [CHR 0x5C, CHR ''u'', CHR ''0'', CHR ''0''] @ hex2 (of_char c))"

definition dumps_str :: "string \<Rightarrow> string" where
  "dumps_str s = CHR 0x22 # concat (map dumps_char s) @ [CHR 0x22]"

definition dumps_float :: "string \<Rightarrow> string" where
  "dumps_float r =
     (if r = ''nan'' then ''NaN'' else if r = ''inf'' then ''Infinity''
      else if r = ''-inf'' then ''-Infinity'' else r)"

fun json_dumps :: "json \<Rightarrow> string" where
  "json_dumps JNull = ''null''"
| "json_dumps (JBool b) = (if b then ''true'' else ''false'')"
| "json_dumps (JInt i) = str_int i"
| "json_dumps (JFloat r) = dumps_float r"
| "json_dumps (JStr s) = dumps_str s"
| "json_dumps (JArr xs) = ''['' @ join '', '' (map json_dumps xs) @ '']''"
| "json_dumps (JObj kvs) =
     ''{'' @ join '', '' (map (\<lambda>(k, v). dumps_str k @ '': '' @ json_dumps v) kvs) @ ''}''"

section \<open>Bearer authentication\<close>

text \<open>
  \<^verbatim>\<open>verify_bearer_token(authorization: str = Header(None))\<close>: the header is absent
  (\<open>None\<close>) or a string; \<^verbatim>\<open>not authorization\<close> holds for both \<open>None\<close> and the empty
  string. \<^verbatim>\<open>REQUIRED_BEARER_TOKEN\<close> is read from the environment and is a parameter here.
\<close>

definition startswith :: "string \<Rightarrow> string \<Rightarrow> bool" where
  "startswith s p = (take (length p) s = p)"

definition verify_bearer_token :: "string \<Rightarrow> string option \<Rightarrow> exn + string" where
  "verify_bearer_token REQUIRED_BEARER_TOKEN authorization =
     (case authorization of
        None \<Rightarrow> Inl (HTTPException 401 ''Authorization header required''
                       [(''WWW-Authenticate'', ''Bearer'')])
      | Some a \<Rightarrow>
          if a = [] then
            Inl (HTTPException 401 ''Authorization header required''
                   [(''WWW-Authenticate'', ''Bearer'')])
          else if \<not> startswith a ''Bearer '' then
            Inl (HTTPException 401 (''Authorization header must start with '' @ [CHR 0x27] @ ''Bearer '' @ [CHR 0x27])
                   [(''WWW-Authenticate'', ''Bearer'')])
          else
            let token = drop 7 a in
            if token \<noteq> REQUIRED_BEARER_TOKEN then
              Inl (HTTPException 401 ''Invalid bearer token''
                     [(''WWW-Authenticate'', ''Bearer'')])
            else Inr token)"

section \<open>Normalising the backend's reply\<close>

text \<open>
  Lines 251 to 279 of \<^verbatim>\<open>chat_completion\<close>. The operations Python applies to a value whose
  type the code does not check: truth (\<^verbatim>\<open>if options:\<close>), \<^verbatim>\<open>+=\<close> with a string on
  the right (a string is extended, a list is extended by the string's characters, anything
  else raises \<^verbatim>\<open>TypeError\<close>) and iteration (a list gives its items, a string its
  characters, a dict its keys, anything else raises \<^verbatim>\<open>TypeError\<close>).
\<close>

fun truthy :: "json \<Rightarrow> bool" where
  "truthy JNull = False"
| "truthy (JBool b) = b"
| "truthy (JInt i) = (i \<noteq> 0)"
| "truthy (JFloat r) = (r \<noteq> ''0.0'' \<and> r \<noteq> ''-0.0'')"
| "truthy (JStr s) = (s \<noteq> [])"
| "truthy (JArr xs) = (xs \<noteq> [])"
| "truthy (JObj kvs) = (kvs \<noteq> [])"

definition chars :: "string \<Rightarrow> json list" where
  "chars s = map (\<lambda>c. JStr [c]) s"

fun iadd :: "json \<Rightarrow> string \<Rightarrow> exn + json" where
  "iadd (JStr s) t = Inr (JStr (s @ t))"
| "iadd (JArr xs) t = Inr (JArr (xs @ chars t))"
| "iadd _ t = Inl TypeError"

fun iter :: "json \<Rightarrow> exn + json list" where
  "iter (JArr xs) = Inr xs"
| "iter (JStr s) = Inr (chars s)"
| "iter (JObj kvs) = Inr (map (\<lambda>kv. JStr (fst kv)) kvs)"
| "iter _ = Inl TypeError"

definition dict_get :: "dict \<Rightarrow> string \<Rightarrow> json \<Rightarrow> json" where
  "dict_get d k dflt = (case map_of d k of Some v \<Rightarrow> v | None \<Rightarrow> dflt)"

text \<open>
  The loop \<^verbatim>\<open>for i, option in enumerate(options, 1)\<close>; \<^verbatim>\<open>option.get\<close> raises
  \<^verbatim>\<open>AttributeError\<close> on an option that is not a dict.
\<close>

definition option_line :: "nat \<Rightarrow> dict \<Rightarrow> string" where
  "option_line i option =
     (let option_text = dict_get option ''text'' (JStr (''Option '' @ str_nat i))
      in ''\<newline>'' @ str_nat i @ ''. '' @ py_str option_text)"

fun append_options :: "nat \<Rightarrow> json list \<Rightarrow> json \<Rightarrow> exn + json" where
  "append_options i [] response_content = Inr response_content"
| "append_options i (JObj option # rest) response_content =
     (case iadd response_content (option_line i option) of
        Inl e \<Rightarrow> Inl e
      | Inr c \<Rightarrow> append_options (Suc i) rest c)"
| "append_options i (_ # rest) response_content = Inl AttributeError"

definition item_content :: "dict \<Rightarrow> exn + json" where
  "item_content response_item =
     (let response_content = dict_get response_item ''text'' (JStr ''No response text'') in
      case (if dict_get response_item ''type'' JNull = JStr ''OPTIONS''
            then map_of response_item ''options'' else None) of
        None \<Rightarrow> Inr response_content
      | Some options \<Rightarrow>
          if truthy options then
            (case iadd response_content ''\<newline>\<newline>Options:'' of
               Inl e \<Rightarrow> Inl e
             | Inr c \<Rightarrow>
                 (case iter options of
                    Inl e \<Rightarrow> Inl e
                  | Inr opts \<Rightarrow> append_options 1 opts c))
          else Inr response_content)"

text \<open>
  The test of line 256: a dict with a key \<^verbatim>\<open>response\<close> holding a non-empty list whose
  first element is a dict. The result is that first element.
\<close>

definition expected_shape :: "json \<Rightarrow> dict option" where
  "expected_shape response_data =
     (case response_data of
        JObj d \<Rightarrow>
          (case map_of d ''response'' of
             Some (JArr (x # xs)) \<Rightarrow> (case x of JObj response_item \<Rightarrow> Some response_item | _ \<Rightarrow> None)
           | _ \<Rightarrow> None)
      | _ \<Rightarrow> None)"

definition extract_content :: "json \<Rightarrow> exn + json" where
  "extract_content response_data =
     (case expected_shape response_data of
        Some response_item \<Rightarrow> item_content response_item
      | None \<Rightarrow> Inr (JStr (py_str response_data)))"

text \<open>
  The \<^verbatim>\<open>try\<close> block with its \<^verbatim>\<open>except Exception\<close>. The argument is what
  \<^verbatim>\<open>response.json()\<close> gives: \<open>None\<close> when the body is not JSON and the call raises.
\<close>

definition parse_response :: "json option \<Rightarrow> exn + json" where
  "parse_response body =
     (case (case body of
              None \<Rightarrow> Inl JSONDecodeError
            | Some response_data \<Rightarrow> extract_content response_data) of
        Inl e \<Rightarrow> Inl (HTTPException 500 ''Invalid response from Red Hat Console API'' [])
      | Inr response_content \<Rightarrow> Inr response_content)"

section \<open>The streaming emulator\<close>

text \<open>
  \<^verbatim>\<open>simulate_streaming_response\<close> is a generator; the model is the list of the frames it
  yields when read to its end. \<open>uuid\<close> is the text of \<^verbatim>\<open>uuid.uuid4()\<close> and \<open>now\<close> is
  \<^verbatim>\<open>int(time.time())\<close>, both drawn once at the start. The argument is annotated
  \<^verbatim>\<open>str\<close> but not checked: it is a value \<^verbatim>\<open>json.dumps\<close> can encode, or an object of
  another type (given by the name of its type), on which \<^verbatim>\<open>json.dumps\<close> raises
  \<^verbatim>\<open>TypeError\<close> with the message below.
\<close>

datatype content = Encodable json | Foreign string

definition chunk_response :: "string \<Rightarrow> int \<Rightarrow> json \<Rightarrow> json" where
  "chunk_response completion_id created_timestamp response_content =
     JObj [(''id'', JStr completion_id),
           (''object'', JStr ''chat.completion.chunk''),
           (''created'', JInt created_timestamp),
           (''model'', JStr ''red-hat-console-agent''),
           (''choices'', JArr [JObj [(''index'', JInt 0),
                                     (''delta'', JObj [(''content'', response_content)]),
                                     (''finish_reason'', JNull)]])]"

definition final_chunk :: "string \<Rightarrow> int \<Rightarrow> json" where
  "final_chunk completion_id created_timestamp =
     JObj [(''id'', JStr completion_id),
           (''object'', JStr ''chat.completion.chunk''),
           (''created'', JInt created_timestamp),
           (''model'', JStr ''red-hat-console-agent''),
           (''choices'', JArr [JObj [(''index'', JInt 0),
                                     (''delta'', JObj []),
                                     (''finish_reason'', JStr ''stop'')]])]"

definition error_chunk :: "string \<Rightarrow> int \<Rightarrow> string \<Rightarrow> json" where
  "error_chunk completion_id created_timestamp e =
     JObj [(''id'', JStr completion_id),
           (''object'', JStr ''chat.completion.chunk''),
           (''created'', JInt created_timestamp),
           (''model'', JStr ''red-hat-console-agent''),
           (''choices'', JArr [JObj [(''index'', JInt 0),
                                     (''delta'', JObj [(''content'', JStr (''Error: '' @ e))]),
                                     (''finish_reason'', JStr ''stop'')]])]"

text \<open>\<^verbatim>\<open>json.dumps(chunk_response)\<close>: the message of the \<^verbatim>\<open>TypeError\<close>, or the text.\<close>

definition dumps_chunk_response :: "string \<Rightarrow> int \<Rightarrow> content \<Rightarrow> string + string" where
  "dumps_chunk_response completion_id created_timestamp response_content =
     (case response_content of
        Encodable c \<Rightarrow> Inr (json_dumps (chunk_response completion_id created_timestamp c))
      | Foreign tn \<Rightarrow> Inl (''Object of type '' @ tn @ '' is not JSON serializable''))"

definition data_frame :: "string \<Rightarrow> string" where
  "data_frame s = ''data: '' @ s @ ''\<newline>\<newline>''"

definition DONE :: string where
  "DONE = ''data: [DONE]\<newline>\<newline>''"

definition simulate_streaming_response :: "string \<Rightarrow> int \<Rightarrow> content \<Rightarrow> string list" where
  "simulate_streaming_response uuid now response_content =
     (let completion_id = ''chatcmpl-'' @ take 8 uuid;
          created_timestamp = now
      in case dumps_chunk_response completion_id created_timestamp response_content of
           Inr s \<Rightarrow>
             [data_frame s,
              data_frame (json_dumps (final_chunk completion_id created_timestamp)),
              DONE]
         | Inl e \<Rightarrow>
             [data_frame (json_dumps (error_chunk completion_id created_timestamp e)),
              DONE])"

section \<open>The backend client\<close>

text \<open>
  \<^verbatim>\<open>requests.post\<close> is the network: a parameter that, for the JSON body posted, either
  raises or returns a response. Of the response the handler reads \<^verbatim>\<open>status_code\<close>,
  its truth value (\<^verbatim>\<open>Response.__bool__\<close> is \<^verbatim>\<open>ok\<close>: no status from 400 to 599) and
  \<^verbatim>\<open>json()\<close> (\<open>None\<close> when the body does not parse and the call raises).
  \<^verbatim>\<open>send_message\<close> also returns the list of the bodies posted so far, extended by its own.
\<close>

record response =
  status_code :: int
  body_json :: "json option"

datatype post_outcome = Raises | Returns response

definition ok :: "response \<Rightarrow> bool" where
  "ok r = (\<not> (400 \<le> status_code r \<and> status_code r < 600))"

definition send_message ::
  "(json \<Rightarrow> post_outcome) \<Rightarrow> json \<Rightarrow> json list \<Rightarrow> response option \<times> json list" where
  "send_message post message posted =
     (let payload = JObj [(''input'', JObj [(''text'', message)])]
      in case post payload of
           Returns r \<Rightarrow> (Some r, posted @ [payload])
         | Raises \<Rightarrow> (None, posted @ [payload]))"

section \<open>The endpoints\<close>

record chat_request =
  messages :: "dict list"
  stream :: bool

record env =
  REQUIRED_BEARER_TOKEN :: string
  post :: "json \<Rightarrow> post_outcome"
  uuid4 :: string
  now :: int

datatype reply = StreamingResponse "string list" string | Body json

text \<open>The list comprehension of line 235: \<^verbatim>\<open>msg["role"]\<close> raises on a dict without the key.\<close>

fun user_messages_of :: "dict list \<Rightarrow> exn + dict list" where
  "user_messages_of [] = Inr []"
| "user_messages_of (msg # rest) =
     (case map_of msg ''role'' of
        None \<Rightarrow> Inl (KeyError ''role'')
      | Some role \<Rightarrow>
          (case user_messages_of rest of
             Inl e \<Rightarrow> Inl e
           | Inr us \<Rightarrow> Inr (if role = JStr ''user'' then msg # us else us)))"

definition completion :: "string \<Rightarrow> int \<Rightarrow> json \<Rightarrow> json" where
  "completion uuid created response_content =
     JObj [(''id'', JStr (''chatcmpl-'' @ take 8 uuid)),
           (''object'', JStr ''chat.completion''),
           (''created'', JInt created),
           (''model'', JStr ''red-hat-console-agent''),
           (''choices'', JArr [JObj [(''index'', JInt 0),
                                     (''message'', JObj [(''role'', JStr ''assistant''),
                                                         (''content'', response_content)]),
                                     (''finish_reason'', JStr ''stop'')]])]"

text \<open>
  The body of \<^verbatim>\<open>chat_completion\<close>, after its dependency has passed. The result comes with
  the list of the bodies posted to the backend.
\<close>

definition chat_completion :: "env \<Rightarrow> chat_request \<Rightarrow> (exn + reply) \<times> json list" where
  "chat_completion env request =
     (case user_messages_of (messages request) of
        Inl e \<Rightarrow> (Inl e, [])
      | Inr user_messages \<Rightarrow>
          if user_messages = [] then (Inl (HTTPException 400 ''No user message found'' []), [])
          else
            (case map_of (last user_messages) ''content'' of
               None \<Rightarrow> (Inl (KeyError ''content''), [])
             | Some query \<Rightarrow>
                 (case send_message (post env) query [] of
                    (None, posted) \<Rightarrow>
                      (Inl (HTTPException 500 ''Failed to get response from Red Hat Console API'' []),
                       posted)
                  | (Some r, posted) \<Rightarrow>
                      if \<not> ok r \<or> status_code r \<noteq> 200 then
                        (Inl (HTTPException 500 ''Failed to get response from Red Hat Console API'' []),
                         posted)
                      else
                        (case parse_response (body_json r) of
                           Inl e \<Rightarrow> (Inl e, posted)
                         | Inr response_content \<Rightarrow>
                             if stream request then
                               (Inr (StreamingResponse
                                       (simulate_streaming_response (uuid4 env) (now env)
                                          (Encodable response_content))
                                       ''text/event-stream''),
                                posted)
                             else
                               (Inr (Body (completion (uuid4 env) (now env) response_content)),
                                posted)))))"

definition discover_agents :: json where
  "discover_agents =
     JObj [(''agents'', JArr [JObj
       [(''name'', JStr ''Red Hat Console Agent''),
        (''description'', JStr ''Connects to the Red Hat Console Virtual Assistant API for Red Hat product assistance''),
        (''provider'', JObj [(''organization'', JStr ''Red Hat''), (''url'', JStr ''https://redhat.com'')]),
        (''version'', JStr ''1.0.0''),
        (''documentation_url'', JStr ''https://access.redhat.com''),
        (''capabilities'', JObj [(''streaming'', JBool True)])]])]"

text \<open>
  The routes: \<^verbatim>\<open>Depends(verify_bearer_token)\<close> runs before the handler's body, and an
  exception it raises is the route's result. An \<^verbatim>\<open>HTTPException\<close> is answered with its
  own status; the framework answers any other exception that leaves a handler with 500.
\<close>

definition post_v1_chat ::
  "env \<Rightarrow> string option \<Rightarrow> chat_request \<Rightarrow> (exn + reply) \<times> json list" where
  "post_v1_chat env authorization request =
     (case verify_bearer_token (REQUIRED_BEARER_TOKEN env) authorization of
        Inl e \<Rightarrow> (Inl e, [])
      | Inr token \<Rightarrow> chat_completion env request)"

definition get_v1_agents :: "env \<Rightarrow> string option \<Rightarrow> (exn + reply) \<times> json list" where
  "get_v1_agents env authorization =
     (case verify_bearer_token (REQUIRED_BEARER_TOKEN env) authorization of
        Inl e \<Rightarrow> (Inl e, [])
      | Inr token \<Rightarrow> (Inr (Body discover_agents), []))"

fun http_status :: "exn \<Rightarrow> int" where
  "http_status (HTTPException status detail headers) = status"
| "http_status _ = 500"

section \<open>Reading a value, a sample backend\<close>

text \<open>
  What a client reads in a decoded frame: the value under a path of keys and indices
  (\<^verbatim>\<open>chunk["choices"][0]["delta"]\<close>), \<open>None\<close> where the path leaves the value.
\<close>

datatype key = Key string | Idx nat

fun at_path :: "json \<Rightarrow> key list \<Rightarrow> json option" where
  "at_path v [] = Some v"
| "at_path (JObj d) (Key k # p) = (case map_of d k of Some v \<Rightarrow> at_path v p | None \<Rightarrow> None)"
| "at_path (JArr xs) (Idx i # p) = (if i < length xs then at_path (xs ! i) p else None)"
| "at_path _ _ = None"

fun is_dict :: "json \<Rightarrow> bool" where
  "is_dict (JObj d) = True"
| "is_dict _ = False"

text \<open>The values that \<^verbatim>\<open>+=\<close> with a string on the right accepts.\<close>

fun appendable :: "json \<Rightarrow> bool" where
  "appendable (JStr s) = True"
| "appendable (JArr xs) = True"
| "appendable _ = False"

text \<open>A message that the filter of line 235 keeps.\<close>

definition is_user :: "dict \<Rightarrow> bool" where
  "is_user msg = (map_of msg ''role'' = Some (JStr ''user''))"

text \<open>A backend for the examples: it answers every request with one status and body.\<close>

definition replying :: "int \<Rightarrow> json option \<Rightarrow> json \<Rightarrow> post_outcome" where
  "replying status body payload = Returns \<lparr>status_code = status, body_json = body\<rparr>"

section \<open>Unfolding the model on a concrete input\<close>

lemmas printing =
  str_nat.simps str_int_def digit_def hex2_def py_str_def repr_str_def repr_quote_def
  repr_char_def isprintable_def dumps_str_def dumps_char_def dumps_float_def Let_def

lemmas normalising =
  parse_response_def extract_content_def expected_shape_def item_content_def dict_get_def
  option_line_def chars_def

lemmas streaming =
  simulate_streaming_response_def dumps_chunk_response_def chunk_response_def final_chunk_def
  error_chunk_def data_frame_def DONE_def

lemmas handling =
  post_v1_chat_def get_v1_agents_def chat_completion_def send_message_def ok_def
  verify_bearer_token_def startswith_def replying_def completion_def is_user_def

section \<open>Bearer authentication: the contract\<close>

lemma verify_accepts: "verify_bearer_token S (Some (''Bearer '' @ S)) = Inr S"
  by (simp add: verify_bearer_token_def startswith_def)

lemma startswith_Bearer: "startswith a ''Bearer '' \<longleftrightarrow> (\<exists>rest. a = ''Bearer '' @ rest)"
  unfolding startswith_def
  by (metis append_eq_conv_conj append_take_drop_id length_Cons list.size(3))

lemma verify_cases:
  "verify_bearer_token S authorization =
     (if authorization = Some (''Bearer '' @ S) then Inr S
      else Inl (HTTPException 401
        (case authorization of
           None \<Rightarrow> ''Authorization header required''
         | Some a \<Rightarrow>
             if a = [] then ''Authorization header required''
             else if \<exists>rest. a = ''Bearer '' @ rest then ''Invalid bearer token''
             else ''Authorization header must start with '' @ [CHR 0x27] @ ''Bearer '' @ [CHR 0x27])
        [(''WWW-Authenticate'', ''Bearer'')]))"
proof (cases authorization)
  case None
  then show ?thesis by (simp add: verify_bearer_token_def)
next
  case (Some a)
  show ?thesis
  proof (cases "startswith a ''Bearer ''")
    case True
    then obtain rest where a: "a = ''Bearer '' @ rest"
      using startswith_Bearer by blast
    show ?thesis
      using Some True by (auto simp: verify_bearer_token_def a)
  next
    case False
    then have "\<not> (\<exists>rest. a = ''Bearer '' @ rest)"
      using startswith_Bearer by blast
    then show ?thesis
      using Some False by (auto simp: verify_bearer_token_def)
  qed
qed

text \<open>
  C6. Authentication succeeds exactly when the header is present and is \<^verbatim>\<open>"Bearer "\<close>
  followed by the configured token. Every other header (absent, empty, without the prefix,
  with another token) gives an \<^verbatim>\<open>HTTPException\<close> with status 401 and the header
  \<^verbatim>\<open>WWW-Authenticate: Bearer\<close>; the detail is one of three different messages, for the
  missing header, the malformed prefix and the wrong token; and both routes end with that
  exception without posting anything to the backend.
\<close>

theorem bearer_authentication:
  "((\<exists>token. verify_bearer_token (REQUIRED_BEARER_TOKEN env) authorization = Inr token)
      \<longleftrightarrow> authorization = Some (''Bearer '' @ REQUIRED_BEARER_TOKEN env))
   \<and> (authorization \<noteq> Some (''Bearer '' @ REQUIRED_BEARER_TOKEN env) \<longrightarrow>
        (\<exists>detail.
           verify_bearer_token (REQUIRED_BEARER_TOKEN env) authorization
             = Inl (HTTPException 401 detail [(''WWW-Authenticate'', ''Bearer'')])
         \<and> detail =
             (case authorization of
                None \<Rightarrow> ''Authorization header required''
              | Some a \<Rightarrow>
                  if a = [] then ''Authorization header required''
                  else if \<exists>rest. a = ''Bearer '' @ rest then ''Invalid bearer token''
                  else ''Authorization header must start with '' @ [CHR 0x27] @ ''Bearer '' @ [CHR 0x27])
         \<and> post_v1_chat env authorization request
             = (Inl (HTTPException 401 detail [(''WWW-Authenticate'', ''Bearer'')]), [])
         \<and> get_v1_agents env authorization
             = (Inl (HTTPException 401 detail [(''WWW-Authenticate'', ''Bearer'')]), [])))
   \<and> distinct [''Authorization header required'',
                ''Authorization header must start with '' @ [CHR 0x27] @ ''Bearer '' @ [CHR 0x27],
                ''Invalid bearer token'']"
  by (simp add: verify_cases post_v1_chat_def get_v1_agents_def)

theorem bearer_authentication_witness:
  "post_v1_chat \<lparr>REQUIRED_BEARER_TOKEN = ''s3cret'', post = replying 200 None,
                  uuid4 = ''0f8fad5b-d9cb-469f-a165-70867728950e'', now = 1700000000\<rparr>
     (Some ''Bearer guess'')
     \<lparr>messages = [[(''role'', JStr ''user''), (''content'', JStr ''hi'')]], stream = False\<rparr>
   = (Inl (HTTPException 401 ''Invalid bearer token'' [(''WWW-Authenticate'', ''Bearer'')]), [])"
  using bearer_authentication
    [of "\<lparr>REQUIRED_BEARER_TOKEN = ''s3cret'', post = replying 200 None,
           uuid4 = ''0f8fad5b-d9cb-469f-a165-70867728950e'', now = 1700000000\<rparr>"
        "Some ''Bearer guess''"
        "\<lparr>messages = [[(''role'', JStr ''user''), (''content'', JStr ''hi'')]], stream = False\<rparr>"]
  by simp

section \<open>The chat handler: query extraction and the backend call\<close>

lemma user_messages_of_roles:
  "\<forall>m\<in>set ms. map_of m ''role'' \<noteq> None \<Longrightarrow> user_messages_of ms = Inr (filter is_user ms)"
  by (induction ms) (auto simp: is_user_def)

lemma user_messages_of_missing:
  "\<exists>m\<in>set ms. map_of m ''role'' = None \<Longrightarrow> user_messages_of ms = Inl (KeyError ''role'')"
proof (induction ms)
  case Nil
  then show ?case by simp
next
  case (Cons m ms)
  show ?case
  proof (cases "map_of m ''role''")
    case None
    then show ?thesis by simp
  next
    case (Some r)
    with Cons.prems have "\<exists>m\<in>set ms. map_of m ''role'' = None" by auto
    then have "user_messages_of ms = Inl (KeyError ''role'')" by (rule Cons.IH)
    with Some show ?thesis by simp
  qed
qed

lemma user_messages_of_split:
  "user_messages_of (before @ m # after) = Inr us \<Longrightarrow> is_user m \<Longrightarrow> \<forall>x\<in>set after. \<not> is_user x
     \<Longrightarrow> us \<noteq> [] \<and> last us = m"
proof (induction before arbitrary: us)
  case Nil
  from Nil.prems(1) obtain r vs where r: "map_of m ''role'' = Some r"
    and vs: "user_messages_of after = Inr vs"
    by (auto split: option.splits sum.splits)
  have all: "\<forall>x\<in>set after. map_of x ''role'' \<noteq> None"
    using vs user_messages_of_missing[of after] by force
  have "vs = filter is_user after"
    using user_messages_of_roles[OF all] vs by simp
  with Nil.prems(3) have "vs = []" by simp
  with Nil.prems(1,2) r vs show ?case by (auto simp: is_user_def)
next
  case (Cons b before)
  from Cons.prems(1) obtain r vs where r: "map_of b ''role'' = Some r"
    and vs: "user_messages_of (before @ m # after) = Inr vs"
    and us: "us = (if r = JStr ''user'' then b # vs else vs)"
    by (auto split: option.splits sum.splits)
  from Cons.IH[OF vs Cons.prems(2,3)] have "vs \<noteq> [] \<and> last vs = m" .
  with us show ?case by auto
qed

lemma authenticated:
  "verify_bearer_token (REQUIRED_BEARER_TOKEN env) authorization = Inr token
     \<Longrightarrow> post_v1_chat env authorization request = chat_completion env request"
  by (simp add: post_v1_chat_def)

text \<open>
  C7 (amended). For every authenticated request in which every message has a \<^verbatim>\<open>role\<close>
  key and no message has the role \<^verbatim>\<open>"user"\<close>, \<^verbatim>\<open>/v1/chat\<close> fails with the
  \<^verbatim>\<open>HTTPException\<close> of status 400 and detail \<^verbatim>\<open>No user message found\<close>, and nothing
  is posted to the backend.
\<close>

theorem no_user_message_400:
  assumes auth: "verify_bearer_token (REQUIRED_BEARER_TOKEN env) authorization = Inr token"
    and roles: "\<forall>m\<in>set (messages request). map_of m ''role'' \<noteq> None"
    and none: "\<forall>m\<in>set (messages request). map_of m ''role'' \<noteq> Some (JStr ''user'')"
  shows "post_v1_chat env authorization request
           = (Inl (HTTPException 400 ''No user message found'' []), [])
         \<and> http_status (HTTPException 400 ''No user message found'' []) = 400"
proof -
  have "filter is_user (messages request) = []"
    using none by (simp add: is_user_def)
  then show ?thesis
    by (simp add: authenticated[OF auth] chat_completion_def user_messages_of_roles[OF roles])
qed

theorem no_user_message_witness:
  "post_v1_chat \<lparr>REQUIRED_BEARER_TOKEN = ''s3cret'', post = replying 200 None,
                  uuid4 = ''0f8fad5b-d9cb-469f-a165-70867728950e'', now = 1700000000\<rparr>
     (Some ''Bearer s3cret'')
     \<lparr>messages = [[(''role'', JStr ''system''), (''content'', JStr ''Be brief.'')],
                  [(''role'', JStr ''assistant''), (''content'', JStr ''Hello'')]],
      stream = True\<rparr>
   = (Inl (HTTPException 400 ''No user message found'' []), [])"
proof -
  have auth: "verify_bearer_token
      (REQUIRED_BEARER_TOKEN \<lparr>REQUIRED_BEARER_TOKEN = ''s3cret'', post = replying 200 None,
                  uuid4 = ''0f8fad5b-d9cb-469f-a165-70867728950e'', now = 1700000000\<rparr>)
      (Some ''Bearer s3cret'') = Inr ''s3cret''"
    by (simp add: verify_bearer_token_def startswith_def)
  show ?thesis
    using no_user_message_400[OF auth,
      of "\<lparr>messages = [[(''role'', JStr ''system''), (''content'', JStr ''Be brief.'')],
                  [(''role'', JStr ''assistant''), (''content'', JStr ''Hello'')]],
      stream = True\<rparr>"]
    by simp
qed

text \<open>
  C7 as stated fails on a request whose only message has no \<^verbatim>\<open>role\<close> key: there is no
  message with the role \<^verbatim>\<open>"user"\<close>, and the handler ends with \<^verbatim>\<open>KeyError('role')\<close>,
  which is answered with status 500, not 400.
\<close>

theorem no_user_message_counterexample:
  "post_v1_chat \<lparr>REQUIRED_BEARER_TOKEN = ''s3cret'', post = replying 200 None,
                  uuid4 = ''0f8fad5b-d9cb-469f-a165-70867728950e'', now = 1700000000\<rparr>
     (Some ''Bearer s3cret'')
     \<lparr>messages = [[(''content'', JStr ''Be brief.'')]], stream = False\<rparr>
   = (Inl (KeyError ''role''), [])
   \<and> http_status (KeyError ''role'') = 500"
  by (simp add: handling)

text \<open>
  C8 (amended). For every authenticated request in which every message has a \<^verbatim>\<open>role\<close>
  key, with two or more messages of role \<^verbatim>\<open>"user"\<close>, the last of which has a
  \<^verbatim>\<open>content\<close>: exactly one body is posted to the backend, and it is
  \<^verbatim>\<open>{"input": {"text": query}}\<close> with the content of that last user message as the query;
  nothing of the earlier messages is sent.
\<close>

theorem last_user_message_is_the_query:
  assumes auth: "verify_bearer_token (REQUIRED_BEARER_TOKEN env) authorization = Inr token"
    and roles: "\<forall>m\<in>set (messages request). map_of m ''role'' \<noteq> None"
    and users: "2 \<le> length (filter is_user (messages request))"
    and content: "map_of (last (filter is_user (messages request))) ''content'' = Some query"
  shows "snd (post_v1_chat env authorization request) = [JObj [(''input'', JObj [(''text'', query)])]]"
proof -
  have ne: "filter is_user (messages request) \<noteq> []"
    using users by auto
  show ?thesis
  proof (cases "post env (JObj [(''input'', JObj [(''text'', query)])])")
    case Raises
    then show ?thesis
      using ne content
      by (simp add: authenticated[OF auth] chat_completion_def user_messages_of_roles[OF roles]
          send_message_def)
  next
    case (Returns r)
    then show ?thesis
      using ne content
      by (simp add: authenticated[OF auth] chat_completion_def user_messages_of_roles[OF roles]
          send_message_def split: sum.splits)
  qed
qed

theorem last_user_message_witness:
  "snd (post_v1_chat \<lparr>REQUIRED_BEARER_TOKEN = ''s3cret'', post = replying 200 None,
                  uuid4 = ''0f8fad5b-d9cb-469f-a165-70867728950e'', now = 1700000000\<rparr>
     (Some ''Bearer s3cret'')
     \<lparr>messages = [[(''role'', JStr ''user''), (''content'', JStr ''first'')],
                  [(''role'', JStr ''assistant''), (''content'', JStr ''reply'')],
                  [(''role'', JStr ''user''), (''content'', JStr ''second'')]],
      stream = False\<rparr>)
   = [JObj [(''input'', JObj [(''text'', JStr ''second'')])]]"
proof -
  have auth: "verify_bearer_token
      (REQUIRED_BEARER_TOKEN \<lparr>REQUIRED_BEARER_TOKEN = ''s3cret'', post = replying 200 None,
                  uuid4 = ''0f8fad5b-d9cb-469f-a165-70867728950e'', now = 1700000000\<rparr>)
      (Some ''Bearer s3cret'') = Inr ''s3cret''"
    by (simp add: verify_bearer_token_def startswith_def)
  show ?thesis
    using last_user_message_is_the_query[OF auth,
      of "\<lparr>messages = [[(''role'', JStr ''user''), (''content'', JStr ''first'')],
                  [(''role'', JStr ''assistant''), (''content'', JStr ''reply'')],
                  [(''role'', JStr ''user''), (''content'', JStr ''second'')]],
      stream = False\<rparr>" "JStr ''second''"]
    by (simp add: is_user_def)
qed

text \<open>
  C8 as stated fails on a request with two user messages and a message without a
  \<^verbatim>\<open>role\<close> key between them: the handler ends with \<^verbatim>\<open>KeyError('role')\<close> and no
  query is sent at all.
\<close>

theorem last_user_message_counterexample:
  "post_v1_chat \<lparr>REQUIRED_BEARER_TOKEN = ''s3cret'', post = replying 200 None,
                  uuid4 = ''0f8fad5b-d9cb-469f-a165-70867728950e'', now = 1700000000\<rparr>
     (Some ''Bearer s3cret'')
     \<lparr>messages = [[(''role'', JStr ''user''), (''content'', JStr ''first'')],
                  [(''content'', JStr ''a note without a role'')],
                  [(''role'', JStr ''user''), (''content'', JStr ''second'')]],
      stream = False\<rparr>
   = (Inl (KeyError ''role''), [])"
  by (simp add: handling)

text \<open>
  C9. Once the handler has extracted a query, a backend call that raises or that returns
  with a status other than 200 makes \<^verbatim>\<open>/v1/chat\<close> fail with the \<^verbatim>\<open>HTTPException\<close> of
  status 500 and detail \<^verbatim>\<open>Failed to get response from Red Hat Console API\<close>, the same
  for both kinds of failure and for either value of the request's \<^verbatim>\<open>stream\<close> flag.
\<close>

theorem backend_failure_500:
  assumes auth: "verify_bearer_token (REQUIRED_BEARER_TOKEN env) authorization = Inr token"
    and roles: "\<forall>m\<in>set (messages request). map_of m ''role'' \<noteq> None"
    and users: "filter is_user (messages request) \<noteq> []"
    and content: "map_of (last (filter is_user (messages request))) ''content'' = Some query"
    and outcome: "post env (JObj [(''input'', JObj [(''text'', query)])]) = Raises
       \<or> (\<exists>r. post env (JObj [(''input'', JObj [(''text'', query)])]) = Returns r \<and> status_code r \<noteq> 200)"
  shows "post_v1_chat env authorization (request\<lparr>stream := flag\<rparr>)
           = (Inl (HTTPException 500 ''Failed to get response from Red Hat Console API'' []),
              [JObj [(''input'', JObj [(''text'', query)])]])
         \<and> http_status (HTTPException 500 ''Failed to get response from Red Hat Console API'' []) = 500"
  using users content outcome
  by (auto simp: authenticated[OF auth] chat_completion_def user_messages_of_roles[OF roles]
        send_message_def)

theorem backend_failure_witness:
  "post_v1_chat \<lparr>REQUIRED_BEARER_TOKEN = ''s3cret'', post = replying 503 None,
                  uuid4 = ''0f8fad5b-d9cb-469f-a165-70867728950e'', now = 1700000000\<rparr>
     (Some ''Bearer s3cret'')
     \<lparr>messages = [[(''role'', JStr ''user''), (''content'', JStr ''status?'')]], stream = True\<rparr>
   = (Inl (HTTPException 500 ''Failed to get response from Red Hat Console API'' []),
      [JObj [(''input'', JObj [(''text'', JStr ''status?'')])]])"
proof -
  have auth: "verify_bearer_token
      (REQUIRED_BEARER_TOKEN \<lparr>REQUIRED_BEARER_TOKEN = ''s3cret'', post = replying 503 None,
                  uuid4 = ''0f8fad5b-d9cb-469f-a165-70867728950e'', now = 1700000000\<rparr>)
      (Some ''Bearer s3cret'') = Inr ''s3cret''"
    by (simp add: verify_bearer_token_def startswith_def)
  show ?thesis
    using backend_failure_500[OF auth,
      of "\<lparr>messages = [[(''role'', JStr ''user''), (''content'', JStr ''status?'')]], stream = False\<rparr>"
         "JStr ''status?''" True]
    by (simp add: is_user_def replying_def)
qed

text \<open>
  C10. For every authenticated request in which some message has no \<^verbatim>\<open>role\<close> key, or
  in which the last message of role \<^verbatim>\<open>"user"\<close> has no \<^verbatim>\<open>content\<close> key, the handler
  ends with a \<^verbatim>\<open>KeyError\<close> that nothing catches: it is answered with status 500, it is
  not the 400 of the request without a user message, and nothing is posted to the backend.
\<close>

theorem missing_key_is_KeyError:
  assumes auth: "verify_bearer_token (REQUIRED_BEARER_TOKEN env) authorization = Inr token"
    and missing: "(\<exists>m\<in>set (messages request). map_of m ''role'' = None)
       \<or> (\<exists>before m after. messages request = before @ m # after \<and> is_user m
             \<and> (\<forall>x\<in>set after. \<not> is_user x) \<and> map_of m ''content'' = None)"
  shows "\<exists>k. post_v1_chat env authorization request = (Inl (KeyError k), [])
           \<and> http_status (KeyError k) = 500
           \<and> KeyError k \<noteq> HTTPException 400 ''No user message found'' []"
proof (cases "\<exists>m\<in>set (messages request). map_of m ''role'' = None")
  case True
  then show ?thesis
    by (simp add: authenticated[OF auth] chat_completion_def user_messages_of_missing)
next
  case False
  with missing obtain before m after where split: "messages request = before @ m # after"
    and m: "is_user m" and after: "\<forall>x\<in>set after. \<not> is_user x"
    and nocontent: "map_of m ''content'' = None"
    by blast
  from False have roles: "\<forall>m\<in>set (messages request). map_of m ''role'' \<noteq> None" by simp
  have us: "user_messages_of (before @ m # after) = Inr (filter is_user (messages request))"
    using user_messages_of_roles[OF roles] split by simp
  from user_messages_of_split[OF us m after]
  have "filter is_user (messages request) \<noteq> []" "last (filter is_user (messages request)) = m"
    by simp_all
  then show ?thesis
    using nocontent
    by (simp add: authenticated[OF auth] chat_completion_def user_messages_of_roles[OF roles])
qed

theorem missing_key_witness:
  "post_v1_chat \<lparr>REQUIRED_BEARER_TOKEN = ''s3cret'', post = replying 200 None,
                  uuid4 = ''0f8fad5b-d9cb-469f-a165-70867728950e'', now = 1700000000\<rparr>
     (Some ''Bearer s3cret'')
     \<lparr>messages = [[(''role'', JStr ''user''), (''content'', JStr ''first'')],
                  [(''role'', JStr ''user''), (''text'', JStr ''second'')],
                  [(''role'', JStr ''assistant''), (''content'', JStr ''reply'')]],
      stream = False\<rparr>
   = (Inl (KeyError ''content''), [])"
proof -
  let ?env = "\<lparr>REQUIRED_BEARER_TOKEN = ''s3cret'', post = replying 200 None,
                  uuid4 = ''0f8fad5b-d9cb-469f-a165-70867728950e'', now = 1700000000\<rparr>"
  let ?request = "\<lparr>messages = [[(''role'', JStr ''user''), (''content'', JStr ''first'')],
                  [(''role'', JStr ''user''), (''text'', JStr ''second'')],
                  [(''role'', JStr ''assistant''), (''content'', JStr ''reply'')]],
      stream = False\<rparr>"
  have auth: "verify_bearer_token (REQUIRED_BEARER_TOKEN ?env) (Some ''Bearer s3cret'') = Inr ''s3cret''"
    by (simp add: verify_bearer_token_def startswith_def)
  have "messages ?request =
      [[(''role'', JStr ''user''), (''content'', JStr ''first'')]]
      @ [(''role'', JStr ''user''), (''text'', JStr ''second'')]
      # [[(''role'', JStr ''assistant''), (''content'', JStr ''reply'')]]
    \<and> is_user [(''role'', JStr ''user''), (''text'', JStr ''second'')]
    \<and> (\<forall>x\<in>set [[(''role'', JStr ''assistant''), (''content'', JStr ''reply'')]]. \<not> is_user x)
    \<and> map_of [(''role'', JStr ''user''), (''text'', JStr ''second'')] ''content'' = None"
    by (simp add: is_user_def)
  then have missing: "(\<exists>m\<in>set (messages ?request). map_of m ''role'' = None)
       \<or> (\<exists>before m after. messages ?request = before @ m # after \<and> is_user m
             \<and> (\<forall>x\<in>set after. \<not> is_user x) \<and> map_of m ''content'' = None)"
    by blast
  from missing_key_is_KeyError[OF auth missing]
  obtain k where k: "post_v1_chat ?env (Some ''Bearer s3cret'') ?request = (Inl (KeyError k), [])"
    by blast
  moreover have "post_v1_chat ?env (Some ''Bearer s3cret'') ?request = (Inl (KeyError ''content''), [])"
    by (simp add: handling)
  ultimately show ?thesis by simp
qed

section \<open>Normalising the reply: what the content is\<close>

lemma shape_first_item:
  "map_of payload ''response'' = Some (JArr (JObj item # rest))
     \<Longrightarrow> expected_shape (JObj payload) = Some item"
  by (simp add: expected_shape_def)

lemma option_line_text:
  "option_line i opt =
     ''\<newline>'' @ str_nat i @ ''. '' @
       (case map_of opt ''text'' of Some t \<Rightarrow> py_str t | None \<Rightarrow> ''Option '' @ str_nat i)"
  by (simp add: option_line_def dict_get_def py_str_def split: option.splits)

lemma append_options_dicts:
  "append_options i (map JObj opts) (JStr acc) =
     Inr (JStr (acc @ concat (map (\<lambda>(j, opt). option_line j opt) (zip [i..<i + length opts] opts))))"
proof (induction opts arbitrary: i acc)
  case Nil
  then show ?case by simp
next
  case (Cons opt opts)
  have "[i..<i + Suc (length opts)] = i # [Suc i..<Suc i + length opts]"
    using upt_conv_Cons[of i "i + Suc (length opts)"] by simp
  then show ?case
    by (simp add: Cons.IH)
qed

text \<open>
  C2. When the payload is a dict whose \<^verbatim>\<open>response\<close> is a non-empty list, the first
  element of which is a dict with the type \<^verbatim>\<open>"TEXT"\<close>, the normalised content is that
  element's \<^verbatim>\<open>text\<close> field as it is, with nothing appended (and the default
  \<^verbatim>\<open>No response text\<close> when the element has no such field).
\<close>

theorem text_reply_verbatim:
  assumes "map_of payload ''response'' = Some (JArr (JObj item # rest))"
    and "map_of item ''type'' = Some (JStr ''TEXT'')"
  shows "parse_response (Some (JObj payload)) =
           Inr (case map_of item ''text'' of
                  Some t \<Rightarrow> t
                | None \<Rightarrow> JStr ''No response text'')"
  using assms
  by (simp add: parse_response_def extract_content_def shape_first_item item_content_def dict_get_def)

theorem text_reply_witness:
  "parse_response (Some (JObj [(''response'', JArr [JObj
      [(''text'', JStr ''Use the subscription manager.''), (''type'', JStr ''TEXT'')]])]))
   = Inr (JStr ''Use the subscription manager.'')"
  using text_reply_verbatim
    [of "[(''response'', JArr [JObj
           [(''text'', JStr ''Use the subscription manager.''), (''type'', JStr ''TEXT'')]])]"
        "[(''text'', JStr ''Use the subscription manager.''), (''type'', JStr ''TEXT'')]"
        "[]"]
  by simp

text \<open>
  C3 (amended). When the first response item has the type \<^verbatim>\<open>"OPTIONS"\<close>, a base text that
  is a string (its \<^verbatim>\<open>text\<close> field, or \<^verbatim>\<open>No response text\<close> when it has none) and a
  non-empty list of options every one of which is a dict, the normalised content is the base
  text, then a blank line and \<^verbatim>\<open>Options:\<close>, then one line per option, numbered from 1:
  the index, a dot, a space and the option's \<^verbatim>\<open>text\<close>, or \<^verbatim>\<open>Option\<close> and the index for
  an option without a \<^verbatim>\<open>text\<close>.
\<close>

theorem options_reply_numbered:
  assumes shape: "map_of payload ''response'' = Some (JArr (JObj item # rest))"
    and type: "map_of item ''type'' = Some (JStr ''OPTIONS'')"
    and opts: "map_of item ''options'' = Some (JArr (map JObj options))"
    and nonempty: "options \<noteq> []"
    and base: "map_of item ''text'' = Some (JStr base)
               \<or> (map_of item ''text'' = None \<and> base = ''No response text'')"
  shows "parse_response (Some (JObj payload)) =
     Inr (JStr (base @ ''\<newline>\<newline>Options:'' @
       concat (map (\<lambda>(i, opt). ''\<newline>'' @ str_nat i @ ''. '' @
                      (case map_of opt ''text'' of
                         Some t \<Rightarrow> py_str t
                       | None \<Rightarrow> ''Option '' @ str_nat i))
                   (zip [1..<Suc (length options)] options))))"
proof -
  have base_text: "dict_get item ''text'' (JStr ''No response text'') = JStr base"
    using base by (auto simp: dict_get_def)
  have ty: "dict_get item ''type'' JNull = JStr ''OPTIONS''"
    using type by (simp add: dict_get_def)
  have "item_content item =
      append_options 1 (map JObj options) (JStr (base @ ''\<newline>\<newline>Options:''))"
    using opts nonempty by (simp add: item_content_def base_text ty)
  then show ?thesis
    by (simp add: parse_response_def extract_content_def shape_first_item[OF shape]
        append_options_dicts option_line_text)
qed

theorem options_reply_witness:
  "parse_response (Some (JObj [(''response'', JArr [JObj
      [(''text'', JStr ''Pick''), (''type'', JStr ''OPTIONS''),
       (''options'', JArr [JObj [(''text'', JStr ''A'')], JObj [(''text'', JStr ''B'')],
                           JObj [(''value'', JInt 3)]])]])]))
   = Inr (JStr ''Pick\<newline>\<newline>Options:\<newline>1. A\<newline>2. B\<newline>3. Option 3'')"
  using options_reply_numbered
    [of "[(''response'', JArr [JObj
           [(''text'', JStr ''Pick''), (''type'', JStr ''OPTIONS''),
            (''options'', JArr [JObj [(''text'', JStr ''A'')], JObj [(''text'', JStr ''B'')],
                                JObj [(''value'', JInt 3)]])]])]"
        "[(''text'', JStr ''Pick''), (''type'', JStr ''OPTIONS''),
          (''options'', JArr [JObj [(''text'', JStr ''A'')], JObj [(''text'', JStr ''B'')],
                              JObj [(''value'', JInt 3)]])]"
        "[]"
        "[[(''text'', JStr ''A'')], [(''text'', JStr ''B'')], [(''value'', JInt 3)]]"
        "''Pick''"]
  by (simp add: printing upt_rec)

text \<open>
  C3 as stated fails on a non-empty list of options that are strings, and on a base text
  that is a number: in both the handler answers 500 and there is no content.
\<close>

theorem options_reply_counterexample:
  "parse_response (Some (JObj [(''response'', JArr [JObj
      [(''text'', JStr ''Pick''), (''type'', JStr ''OPTIONS''),
       (''options'', JArr [JStr ''A'', JStr ''B''])]])]))
   = Inl (HTTPException 500 ''Invalid response from Red Hat Console API'' [])
   \<and> parse_response (Some (JObj [(''response'', JArr [JObj
      [(''text'', JInt 7), (''type'', JStr ''OPTIONS''),
       (''options'', JArr [JObj [(''text'', JStr ''A'')], JObj [(''text'', JStr ''B'')]])]])]))
   = Inl (HTTPException 500 ''Invalid response from Red Hat Console API'' [])"
  by (simp add: normalising printing)

section \<open>Normalising the reply: when it fails\<close>

lemma iadd_appendable: "appendable c \<Longrightarrow> \<exists>c'. iadd c t = Inr c' \<and> appendable c'"
  by (cases c) simp_all

lemma iadd_fails: "\<not> appendable c \<Longrightarrow> iadd c t = Inl TypeError"
  by (cases c) simp_all

lemma append_options_fails:
  "appendable c \<Longrightarrow>
     (\<exists>e. append_options i opts c = Inl e) \<longleftrightarrow> (\<exists>x\<in>set opts. \<not> is_dict x)"
proof (induction opts arbitrary: i c)
  case Nil
  then show ?case by simp
next
  case (Cons x opts)
  show ?case
  proof (cases x)
    case (JObj opt)
    from iadd_appendable[OF Cons.prems] obtain c' where
      c': "iadd c (option_line i opt) = Inr c'" "appendable c'" by blast
    show ?thesis
      using Cons.IH[OF c'(2), of "Suc i"] c'(1) JObj by simp
  qed simp_all
qed

lemma appendable_iff: "appendable c \<longleftrightarrow> (\<exists>s. c = JStr s) \<or> (\<exists>xs. c = JArr xs)"
  by (cases c) simp_all

lemma item_content_fails:
  "(\<exists>e. item_content item = Inl e) \<longleftrightarrow>
     (\<exists>options. map_of item ''type'' = Some (JStr ''OPTIONS'')
        \<and> map_of item ''options'' = Some options \<and> truthy options
        \<and> (\<not> appendable (dict_get item ''text'' (JStr ''No response text''))
           \<or> (case iter options of Inl e \<Rightarrow> True | Inr opts \<Rightarrow> \<exists>x\<in>set opts. \<not> is_dict x)))"
proof (cases "map_of item ''type'' = Some (JStr ''OPTIONS'')")
  case False
  then show ?thesis
    by (auto simp: item_content_def dict_get_def split: option.splits)
next
  case True
  show ?thesis
  proof (cases "map_of item ''options''")
    case None
    then show ?thesis using True by (simp add: item_content_def dict_get_def)
  next
    case (Some options)
    let ?base = "dict_get item ''text'' (JStr ''No response text'')"
    have ic: "item_content item =
        (if truthy options then
           (case iadd ?base ''\<newline>\<newline>Options:'' of
              Inl e \<Rightarrow> Inl e
            | Inr c \<Rightarrow> (case iter options of Inl e \<Rightarrow> Inl e | Inr opts \<Rightarrow> append_options 1 opts c))
         else Inr ?base)"
      using True Some by (simp add: item_content_def Let_def dict_get_def)
    show ?thesis
    proof (cases "truthy options")
      case False
      then show ?thesis using True Some ic by simp
    next
      case truthy: True
      show ?thesis
      proof (cases "appendable ?base")
        case False
        then show ?thesis
          using True Some truthy ic iadd_fails[OF False] by simp
      next
        case app: True
        from iadd_appendable[OF app] obtain c where
          c: "iadd ?base ''\<newline>\<newline>Options:'' = Inr c" "appendable c" by blast
        show ?thesis
        proof (cases "iter options")
          case (Inl e)
          then show ?thesis using True Some truthy ic c app by simp
        next
          case (Inr opts)
          then show ?thesis
            using True Some truthy ic c app append_options_fails[OF c(2), of 1 opts] by simp
        qed
      qed
    qed
  qed
qed

lemma parse_response_results:
  "parse_response body = Inl (HTTPException 500 ''Invalid response from Red Hat Console API'' [])
   \<or> (\<exists>c. parse_response body = Inr c)"
  by (auto simp: parse_response_def split: sum.splits option.splits)

lemma parse_response_fails:
  "parse_response (Some p) = Inl (HTTPException 500 ''Invalid response from Red Hat Console API'' [])
     \<longleftrightarrow> (\<exists>item. expected_shape p = Some item \<and> (\<exists>e. item_content item = Inl e))"
  by (auto simp: parse_response_def extract_content_def split: sum.splits option.splits)

text \<open>
  C4 (amended). Normalisation raises nothing but the \<^verbatim>\<open>HTTPException\<close> of status 500 and
  detail \<^verbatim>\<open>Invalid response from Red Hat Console API\<close>; a payload that has not the
  expected shape falls back to \<^verbatim>\<open>str\<close> of the whole payload. That exception is raised
  when the body cannot be read as JSON, and for a payload that can be read exactly in this
  case: the first item has the type \<^verbatim>\<open>"OPTIONS"\<close> and options that are true, and the base
  text is neither a string nor a list, or the options cannot be iterated, or one of the
  options iterated is not a dict. An option that is a dict never makes it fail.
\<close>

theorem normalisation_errors:
  "parse_response None = Inl (HTTPException 500 ''Invalid response from Red Hat Console API'' [])
   \<and> (parse_response body = Inl (HTTPException 500 ''Invalid response from Red Hat Console API'' [])
        \<or> (\<exists>c. parse_response body = Inr c))
   \<and> (expected_shape p = None \<longrightarrow> parse_response (Some p) = Inr (JStr (py_str p)))
   \<and> (parse_response (Some p) = Inl (HTTPException 500 ''Invalid response from Red Hat Console API'' [])
        \<longleftrightarrow> (\<exists>item options.
               expected_shape p = Some item
             \<and> map_of item ''type'' = Some (JStr ''OPTIONS'')
             \<and> map_of item ''options'' = Some options
             \<and> truthy options
             \<and> (\<not> appendable (case map_of item ''text'' of
                                   Some t \<Rightarrow> t | None \<Rightarrow> JStr ''No response text'')
                \<or> (case iter options of
                      Inl e \<Rightarrow> True
                    | Inr opts \<Rightarrow> \<exists>x\<in>set opts. \<not> is_dict x))))"
proof -
  have a: "parse_response None = Inl (HTTPException 500 ''Invalid response from Red Hat Console API'' [])"
    by (simp add: parse_response_def)
  have c: "expected_shape p = None \<longrightarrow> parse_response (Some p) = Inr (JStr (py_str p))"
    by (simp add: parse_response_def extract_content_def)
  have d: "parse_response (Some p) = Inl (HTTPException 500 ''Invalid response from Red Hat Console API'' [])
        \<longleftrightarrow> (\<exists>item options.
               expected_shape p = Some item
             \<and> map_of item ''type'' = Some (JStr ''OPTIONS'')
             \<and> map_of item ''options'' = Some options
             \<and> truthy options
             \<and> (\<not> appendable (case map_of item ''text'' of
                                   Some t \<Rightarrow> t | None \<Rightarrow> JStr ''No response text'')
                \<or> (case iter options of
                      Inl e \<Rightarrow> True
                    | Inr opts \<Rightarrow> \<exists>x\<in>set opts. \<not> is_dict x)))"
    unfolding parse_response_fails item_content_fails dict_get_def by blast
  from a parse_response_results[of body] c d show ?thesis by blast
qed

theorem normalisation_errors_witness:
  "parse_response (Some (JObj [(''error'', JStr ''quota'')])) = Inr (JStr ''{'error': 'quota'}'')"
  using normalisation_errors[of "Some (JObj [(''error'', JStr ''quota'')])" "JObj [(''error'', JStr ''quota'')]"]
  by (simp add: expected_shape_def printing)

text \<open>
  C4 as stated fails on a payload that is JSON and has the expected shape, with a second
  option that is a string: the answer is the 500.
\<close>

theorem normalisation_counterexample:
  "parse_response (Some (JObj [(''response'', JArr [JObj
      [(''text'', JStr ''Pick one''), (''type'', JStr ''OPTIONS''),
       (''options'', JArr [JObj [(''text'', JStr ''A'')], JStr ''B''])]])]))
   = Inl (HTTPException 500 ''Invalid response from Red Hat Console API'' [])"
  by (simp add: normalising printing)

section \<open>The streaming emulator: the frames\<close>

text \<open>
  C1. For every content string the emulator yields exactly three frames: a data frame
  with a \<^verbatim>\<open>chat.completion.chunk\<close> whose \<^verbatim>\<open>delta.content\<close> is the whole content and
  whose \<^verbatim>\<open>finish_reason\<close> is null, a data frame with a chunk whose delta is empty and
  whose \<^verbatim>\<open>finish_reason\<close> is \<^verbatim>\<open>"stop"\<close>, and the sentinel; the two chunks have the same
  \<^verbatim>\<open>id\<close> and the same \<^verbatim>\<open>created\<close>.
\<close>

theorem streaming_frames:
  "\<exists>first second.
     simulate_streaming_response uuid created (Encodable (JStr s))
       = [''data: '' @ json_dumps first @ ''\<newline>\<newline>'',
          ''data: '' @ json_dumps second @ ''\<newline>\<newline>'',
          ''data: [DONE]\<newline>\<newline>'']
   \<and> at_path first [Key ''object''] = Some (JStr ''chat.completion.chunk'')
   \<and> at_path first [Key ''choices'', Idx 0, Key ''delta'', Key ''content''] = Some (JStr s)
   \<and> at_path first [Key ''choices'', Idx 0, Key ''finish_reason''] = Some JNull
   \<and> at_path second [Key ''object''] = Some (JStr ''chat.completion.chunk'')
   \<and> at_path second [Key ''choices'', Idx 0, Key ''delta''] = Some (JObj [])
   \<and> at_path second [Key ''choices'', Idx 0, Key ''finish_reason''] = Some (JStr ''stop'')
   \<and> at_path first [Key ''id''] = Some (JStr (''chatcmpl-'' @ take 8 uuid))
   \<and> at_path second [Key ''id''] = Some (JStr (''chatcmpl-'' @ take 8 uuid))
   \<and> at_path first [Key ''created''] = Some (JInt created)
   \<and> at_path second [Key ''created''] = Some (JInt created)"
proof -
  let ?first = "chunk_response (''chatcmpl-'' @ take 8 uuid) created (JStr s)"
  let ?second = "final_chunk (''chatcmpl-'' @ take 8 uuid) created"
  have "simulate_streaming_response uuid created (Encodable (JStr s))
       = [''data: '' @ json_dumps ?first @ ''\<newline>\<newline>'',
          ''data: '' @ json_dumps ?second @ ''\<newline>\<newline>'',
          ''data: [DONE]\<newline>\<newline>'']"
    by (simp add: simulate_streaming_response_def dumps_chunk_response_def data_frame_def DONE_def Let_def)
  moreover have "at_path ?first [Key ''object''] = Some (JStr ''chat.completion.chunk'')"
    "at_path ?first [Key ''choices'', Idx 0, Key ''delta'', Key ''content''] = Some (JStr s)"
    "at_path ?first [Key ''choices'', Idx 0, Key ''finish_reason''] = Some JNull"
    "at_path ?first [Key ''id''] = Some (JStr (''chatcmpl-'' @ take 8 uuid))"
    "at_path ?first [Key ''created''] = Some (JInt created)"
    by (simp_all add: chunk_response_def)
  moreover have "at_path ?second [Key ''object''] = Some (JStr ''chat.completion.chunk'')"
    "at_path ?second [Key ''choices'', Idx 0, Key ''delta''] = Some (JObj [])"
    "at_path ?second [Key ''choices'', Idx 0, Key ''finish_reason''] = Some (JStr ''stop'')"
    "at_path ?second [Key ''id''] = Some (JStr (''chatcmpl-'' @ take 8 uuid))"
    "at_path ?second [Key ''created''] = Some (JInt created)"
    by (simp_all add: final_chunk_def)
  ultimately show ?thesis by blast
qed

theorem streaming_frames_witness:
  \<open>simulate_streaming_response ''0f8fad5b-d9cb-469f-a165-70867728950e'' 1700000000
      (Encodable (JStr ''Hello''))
   = [''data: {"id": "chatcmpl-0f8fad5b", "object": "chat.completion.chunk", "created": 1700000000, "model": "red-hat-console-agent", "choices": [{"index": 0, "delta": {"content": "Hello"}, "finish_reason": null}]}\<newline>\<newline>'',
      ''data: {"id": "chatcmpl-0f8fad5b", "object": "chat.completion.chunk", "created": 1700000000, "model": "red-hat-console-agent", "choices": [{"index": 0, "delta": {}, "finish_reason": "stop"}]}\<newline>\<newline>'',
      ''data: [DONE]\<newline>\<newline>'']\<close>
  using streaming_frames[of "''0f8fad5b-d9cb-469f-a165-70867728950e''" 1700000000 "''Hello''"]
  by (simp add: streaming printing)

text \<open>
  C5 (amended). When \<^verbatim>\<open>json.dumps\<close> raises on the content chunk, the emulator yields
  exactly two frames: a data frame with a chunk whose \<^verbatim>\<open>delta.content\<close> is
  \<^verbatim>\<open>Error:\<close> and the exception's message and whose own \<^verbatim>\<open>finish_reason\<close> is
  \<^verbatim>\<open>"stop"\<close>, then the sentinel; no chunk with an empty delta comes between them. With or
  without an error, the last frame is the sentinel.
\<close>

theorem stream_error_path:
  assumes "dumps_chunk_response (''chatcmpl-'' @ take 8 uuid) created response_content = Inl e"
  shows "\<exists>err.
     simulate_streaming_response uuid created response_content
       = [''data: '' @ json_dumps err @ ''\<newline>\<newline>'', ''data: [DONE]\<newline>\<newline>'']
   \<and> at_path err [Key ''choices'', Idx 0, Key ''delta'', Key ''content''] = Some (JStr (''Error: '' @ e))
   \<and> at_path err [Key ''choices'', Idx 0, Key ''finish_reason''] = Some (JStr ''stop'')
   \<and> at_path err [Key ''id''] = Some (JStr (''chatcmpl-'' @ take 8 uuid))
   \<and> at_path err [Key ''created''] = Some (JInt created)
   \<and> last (simulate_streaming_response uuid created any_content) = ''data: [DONE]\<newline>\<newline>''"
proof -
  let ?err = "error_chunk (''chatcmpl-'' @ take 8 uuid) created e"
  have "simulate_streaming_response uuid created response_content
       = [''data: '' @ json_dumps ?err @ ''\<newline>\<newline>'', ''data: [DONE]\<newline>\<newline>'']"
    using assms by (simp add: simulate_streaming_response_def data_frame_def DONE_def Let_def)
  moreover have "at_path ?err [Key ''choices'', Idx 0, Key ''delta'', Key ''content''] = Some (JStr (''Error: '' @ e))"
    "at_path ?err [Key ''choices'', Idx 0, Key ''finish_reason''] = Some (JStr ''stop'')"
    "at_path ?err [Key ''id''] = Some (JStr (''chatcmpl-'' @ take 8 uuid))"
    "at_path ?err [Key ''created''] = Some (JInt created)"
    by (simp_all add: error_chunk_def)
  moreover have "last (simulate_streaming_response uuid created any_content) = ''data: [DONE]\<newline>\<newline>''"
    by (simp add: simulate_streaming_response_def DONE_def Let_def split: sum.splits)
  ultimately show ?thesis by blast
qed

theorem stream_error_path_witness:
  \<open>\<exists>err.
     simulate_streaming_response ''0f8fad5b-d9cb-469f-a165-70867728950e'' 1700000000 (Foreign ''bytes'')
       = [''data: '' @ json_dumps err @ ''\<newline>\<newline>'', ''data: [DONE]\<newline>\<newline>'']
   \<and> at_path err [Key ''choices'', Idx 0, Key ''delta'', Key ''content'']
       = Some (JStr ''Error: Object of type bytes is not JSON serializable'')
   \<and> at_path err [Key ''choices'', Idx 0, Key ''finish_reason''] = Some (JStr ''stop'')\<close>
proof -
  have h: "dumps_chunk_response (''chatcmpl-'' @ take 8 ''0f8fad5b-d9cb-469f-a165-70867728950e'')
             1700000000 (Foreign ''bytes'')
           = Inl ''Object of type bytes is not JSON serializable''"
    by (simp add: dumps_chunk_response_def)
  from stream_error_path[OF h] show ?thesis by auto
qed

text \<open>
  C5 as stated fails on a content that is a \<^verbatim>\<open>set\<close>: the error chunk is followed by the
  sentinel at once, and the frame of the finish chunk is not among the frames.
\<close>

theorem stream_error_counterexample:
  \<open>simulate_streaming_response ''0f8fad5b-d9cb-469f-a165-70867728950e'' 1700000000 (Foreign ''set'')
   = [''data: {"id": "chatcmpl-0f8fad5b", "object": "chat.completion.chunk", "created": 1700000000, "model": "red-hat-console-agent", "choices": [{"index": 0, "delta": {"content": "Error: Object of type set is not JSON serializable"}, "finish_reason": "stop"}]}\<newline>\<newline>'',
      ''data: [DONE]\<newline>\<newline>'']
   \<and> ''data: '' @ json_dumps (final_chunk ''chatcmpl-0f8fad5b'' 1700000000) @ ''\<newline>\<newline>''
       \<notin> set (simulate_streaming_response ''0f8fad5b-d9cb-469f-a165-70867728950e'' 1700000000
                  (Foreign ''set''))\<close>
  by (simp add: streaming printing)

end
